theory Spec2Isabelle
  imports Complex_Main "HOL-Library.Sublist"
begin

section \<open>JavaScript values\<close>

text \<open>
  The runtime of messageformat (\<^verbatim>\<open>class Runtime\<close>) is three small functions over
  JavaScript values. They use the language's own conversions (\<^verbatim>\<open>!offset\<close>,
  \<^verbatim>\<open>isNaN(value)\<close>, \<^verbatim>\<open>value - offset\<close>, \<^verbatim>\<open>data[value]\<close>, string concatenation,
  \<^verbatim>\<open>JSON.stringify\<close>), so the embedding starts with the primitive values and these
  conversions, as ECMAScript defines them.

  Numbers: a finite number is an exact rational. The rounding and the overflow of IEEE
  doubles are not modelled, and negative zero is identified with zero (no operation
  below tells them apart: both are falsy, both print as \<^verbatim>\<open>0\<close>).
  Strings are lists of 8-bit code units.
\<close>

datatype jsnum = NaN | PosInf | NegInf | Fin rat

datatype jsval = Undefined | Null | Bool bool | Num jsnum | Str string

subsection \<open>ToBoolean\<close>

fun to_boolean :: "jsval \<Rightarrow> bool" where
  "to_boolean Undefined = False"
| "to_boolean Null = False"
| "to_boolean (Bool b) = b"
| "to_boolean (Num NaN) = False"
| "to_boolean (Num (Fin q)) = (q \<noteq> 0)"
| "to_boolean (Num PosInf) = True"
| "to_boolean (Num NegInf) = True"
| "to_boolean (Str s) = (s \<noteq> [])"

subsection \<open>ToNumber\<close>

text \<open>White space and line terminators that StringToNumber strips (those below 256).\<close>

definition is_ws :: "char \<Rightarrow> bool" where
  "is_ws c = (c = CHR 0x09 \<or> c = CHR 0x0A \<or> c = CHR 0x0B \<or> c = CHR 0x0C \<or> c = CHR 0x0D
              \<or> c = CHR 0x20 \<or> c = CHR 0xA0)"

definition trim :: "string \<Rightarrow> string" where
  "trim s = rev (dropWhile is_ws (rev (dropWhile is_ws s)))"

definition digit_val :: "char \<Rightarrow> nat option" where
  "digit_val c =
     (let n = (of_char c :: nat) in
      if 48 \<le> n \<and> n \<le> 57 then Some (n - 48)
      else if 97 \<le> n \<and> n \<le> 102 then Some (n - 87)
      else if 65 \<le> n \<and> n \<le> 70 then Some (n - 55)
      else None)"

definition is_digit :: "nat \<Rightarrow> char \<Rightarrow> bool" where
  "is_digit radix c = (case digit_val c of Some d \<Rightarrow> d < radix | None \<Rightarrow> False)"

text \<open>The value of a digit string, most significant digit first.\<close>

definition digits_val :: "nat \<Rightarrow> string \<Rightarrow> nat" where
  "digits_val radix ds = foldl (\<lambda>acc c. acc * radix + (case digit_val c of Some d \<Rightarrow> d | None \<Rightarrow> 0)) 0 ds"

text \<open>\<^verbatim>\<open>0x\<close>, \<^verbatim>\<open>0o\<close> and \<^verbatim>\<open>0b\<close> literals: no sign, at least one digit.\<close>

definition radix_of_prefix :: "char \<Rightarrow> nat option" where
  "radix_of_prefix c =
     (if c = CHR ''x'' \<or> c = CHR ''X'' then Some 16
      else if c = CHR ''o'' \<or> c = CHR ''O'' then Some 8
      else if c = CHR ''b'' \<or> c = CHR ''B'' then Some 2
      else None)"

fun parse_nondecimal :: "string \<Rightarrow> nat option" where
  "parse_nondecimal (z # p # ds) =
     (if z = CHR ''0'' then
        (case radix_of_prefix p of
           Some r \<Rightarrow> if ds \<noteq> [] \<and> list_all (is_digit r) ds then Some (digits_val r ds) else None
         | None \<Rightarrow> None)
      else None)"
| "parse_nondecimal _ = None"

text \<open>The exponent part \<^verbatim>\<open>e\<close>, optional sign, digits; \<open>None\<close> when it is malformed.\<close>

fun parse_exponent :: "string \<Rightarrow> int option" where
  "parse_exponent [] = Some 0"
| "parse_exponent (e # r) =
     (if e = CHR ''e'' \<or> e = CHR ''E'' then
        (let (neg, ds) = (case r of
                            c # r' \<Rightarrow> if c = CHR ''-'' then (True, r')
                                      else if c = CHR ''+'' then (False, r') else (False, r)
                          | [] \<Rightarrow> (False, r))
         in if ds \<noteq> [] \<and> list_all (is_digit 10) ds
            then Some (if neg then - int (digits_val 10 ds) else int (digits_val 10 ds))
            else None)
      else None)"

definition pow10 :: "int \<Rightarrow> rat" where
  "pow10 e = (if 0 \<le> e then 10 ^ nat e else 1 / 10 ^ nat (- e))"

text \<open>StrUnsignedDecimalLiteral: \<^verbatim>\<open>Infinity\<close>, or digits with an optional fraction
  and exponent, at least one digit in the mantissa.\<close>

definition parse_unsigned :: "string \<Rightarrow> jsnum" where
  "parse_unsigned u =
     (if u = ''Infinity'' then PosInf
      else
        let ip = takeWhile (is_digit 10) u;
            r1 = dropWhile (is_digit 10) u;
            dot = (r1 \<noteq> [] \<and> hd r1 = CHR ''.'');
            fp = (if dot then takeWhile (is_digit 10) (tl r1) else []);
            r2 = (if dot then dropWhile (is_digit 10) (tl r1) else r1)
        in if ip = [] \<and> fp = [] then NaN
           else (case parse_exponent r2 of
                   None \<Rightarrow> NaN
                 | Some e \<Rightarrow> Fin (of_nat (digits_val 10 (ip @ fp)) * pow10 (e - int (length fp)))))"

fun num_neg :: "jsnum \<Rightarrow> jsnum" where
  "num_neg NaN = NaN"
| "num_neg PosInf = NegInf"
| "num_neg NegInf = PosInf"
| "num_neg (Fin q) = Fin (- q)"

definition string_to_number :: "string \<Rightarrow> jsnum" where
  "string_to_number s =
     (let t = trim s in
      case t of
        [] \<Rightarrow> Fin 0
      | c # r \<Rightarrow>
          (case parse_nondecimal t of
             Some n \<Rightarrow> Fin (of_nat n)
           | None \<Rightarrow>
               if c = CHR ''-'' then num_neg (parse_unsigned r)
               else if c = CHR ''+'' then parse_unsigned r
               else parse_unsigned t))"

fun to_number :: "jsval \<Rightarrow> jsnum" where
  "to_number Undefined = NaN"
| "to_number Null = Fin 0"
| "to_number (Bool b) = (if b then Fin 1 else Fin 0)"
| "to_number (Num n) = n"
| "to_number (Str s) = string_to_number s"

text \<open>The global \<^verbatim>\<open>isNaN(v)\<close>: \<open>ToNumber(v)\<close> is \<open>NaN\<close>.\<close>

definition isNaN :: "jsval \<Rightarrow> bool" where
  "isNaN v = (to_number v = NaN)"

subsection \<open>Subtraction and the logical or\<close>

fun num_sub :: "jsnum \<Rightarrow> jsnum \<Rightarrow> jsnum" where
  "num_sub NaN _ = NaN"
| "num_sub _ NaN = NaN"
| "num_sub PosInf PosInf = NaN"
| "num_sub NegInf NegInf = NaN"
| "num_sub PosInf _ = PosInf"
| "num_sub NegInf _ = NegInf"
| "num_sub (Fin a) PosInf = NegInf"
| "num_sub (Fin a) NegInf = PosInf"
| "num_sub (Fin a) (Fin b) = Fin (a - b)"

text \<open>\<^verbatim>\<open>a - b\<close> converts both operands with ToNumber.\<close>

definition js_sub :: "jsval \<Rightarrow> jsval \<Rightarrow> jsval" where
  "js_sub a b = Num (num_sub (to_number a) (to_number b))"

text \<open>\<^verbatim>\<open>a || b\<close>.\<close>

definition js_or :: "jsval \<Rightarrow> jsval \<Rightarrow> jsval" where
  "js_or a b = (if to_boolean a then a else b)"

subsection \<open>ToString\<close>

fun nat_digits :: "nat \<Rightarrow> string" where
  "nat_digits n =
     (if n < 10 then [''0123456789'' ! n]
      else nat_digits (n div 10) @ [''0123456789'' ! (n mod 10)])"

declare nat_digits.simps [simp del]

text \<open>\<open>factor_out p n\<close>: how often \<open>p\<close> divides \<open>n\<close>, and what is left.\<close>

function factor_out :: "nat \<Rightarrow> nat \<Rightarrow> nat \<times> nat" where
  "factor_out p n =
     (if 2 \<le> p \<and> 0 < n \<and> n mod p = 0
      then (case factor_out p (n div p) of (c, r) \<Rightarrow> (Suc c, r))
      else (0, n))"
  by pat_completeness auto
termination
  by (relation "measure snd") auto

declare factor_out.simps [simp del]

text \<open>
  Number::toString for a positive finite number \<open>x\<close>: with \<open>s\<close> the digits without
  trailing zeros, \<open>k\<close> their count and \<open>x = s * 10 ^ (n - k)\<close>, the notation depends on
  \<open>n\<close> (plain digits up to \<open>10 ^ 21\<close>, a leading \<^verbatim>\<open>0.\<close> down to \<open>10 ^ -6\<close>, exponent
  notation beyond). A double has a finite decimal expansion; for a rational without one
  (no number of the program has such a value) the quotient is printed.
\<close>

definition pos_rat_to_string :: "rat \<Rightarrow> string" where
  "pos_rat_to_string x =
     (let (a, b) = quotient_of x;
          (i, b2) = factor_out 2 (nat b);
          (j, b5) = factor_out 5 b2
      in if b5 \<noteq> 1 then nat_digits (nat a) @ ''/'' @ nat_digits (nat b)
         else
           let d = max i j;
               (z, s) = factor_out 10 (nat a * 10 ^ d div nat b);
               ds = nat_digits s;
               k = length ds;
               n = int k + int z - int d;
               ex = (if 0 \<le> n - 1 then ''e+'' else ''e-'') @ nat_digits (nat \<bar>n - 1\<bar>)
           in if int k \<le> n \<and> n \<le> 21 then ds @ replicate (nat (n - int k)) (CHR ''0'')
              else if 0 < n \<and> n \<le> 21 then take (nat n) ds @ ''.'' @ drop (nat n) ds
              else if - 6 < n \<and> n \<le> 0 then ''0.'' @ replicate (nat (- n)) (CHR ''0'') @ ds
              else if k = 1 then ds @ ex
              else take 1 ds @ ''.'' @ drop 1 ds @ ex)"

fun number_to_string :: "jsnum \<Rightarrow> string" where
  "number_to_string NaN = ''NaN''"
| "number_to_string PosInf = ''Infinity''"
| "number_to_string NegInf = ''-Infinity''"
| "number_to_string (Fin q) =
     (if q = 0 then ''0''
      else if q < 0 then ''-'' @ pos_rat_to_string (- q)
      else pos_rat_to_string q)"

fun to_string :: "jsval \<Rightarrow> string" where
  "to_string Undefined = ''undefined''"
| "to_string Null = ''null''"
| "to_string (Bool b) = (if b then ''true'' else ''false'')"
| "to_string (Num n) = number_to_string n"
| "to_string (Str s) = s"

text \<open>A property key \<^verbatim>\<open>data[value]\<close> is the string of the value.\<close>

definition to_property_key :: "jsval \<Rightarrow> string" where
  "to_property_key v = to_string v"

subsection \<open>JSON.stringify\<close>

definition hex_digit :: "nat \<Rightarrow> char" where
  "hex_digit n = ''0123456789abcdef'' ! (n mod 16)"

definition quote_char :: "char \<Rightarrow> string" where
  "quote_char c =
     (let n = (of_char c :: nat) in
      if c = CHR 0x22 then [CHR 0x5C, CHR 0x22]
      else if c = CHR 0x5C then [CHR 0x5C, CHR 0x5C]
      else if c = CHR 0x08 then [CHR 0x5C, CHR ''b'']
      else if c = CHR 0x0C then [CHR 0x5C, CHR ''f'']
      else if c = CHR 0x0A then [CHR 0x5C, CHR ''n'']
      else if c = CHR 0x0D then [CHR 0x5C, CHR ''r'']
      else if c = CHR 0x09 then [CHR 0x5C, CHR ''t'']
      else if n < 32 then [CHR 0x5C, CHR ''u'', CHR ''0'', CHR ''0'', hex_digit (n div 16), hex_digit n]
      else [c])"

text \<open>
  \<^verbatim>\<open>JSON.stringify(v)\<close> as it appears in a string concatenation: for \<^verbatim>\<open>undefined\<close>
  it returns \<^verbatim>\<open>undefined\<close>, which concatenates as that word; a number that is not
  finite is \<^verbatim>\<open>null\<close>.
\<close>

fun json_stringify :: "jsval \<Rightarrow> string" where
  "json_stringify Undefined = ''undefined''"
| "json_stringify Null = ''null''"
| "json_stringify (Bool b) = (if b then ''true'' else ''false'')"
| "json_stringify (Num (Fin q)) = number_to_string (Fin q)"
| "json_stringify (Num _) = ''null''"
| "json_stringify (Str s) = [CHR 0x22] @ concat (map quote_char s) @ [CHR 0x22]"

subsection \<open>Joining strings\<close>

text \<open>\<^verbatim>\<open>s.join(sep)\<close>\<close>

fun join :: "string \<Rightarrow> string list \<Rightarrow> string" where
  "join sep [] = []"
| "join sep [x] = x"
| "join sep (x # y # zs) = x @ sep @ join sep (y # zs)"

section \<open>The number primitive\<close>

text \<open>
  What the runtime throws: an \<^verbatim>\<open>Error\<close> of its own, with its message, or the
  \<^verbatim>\<open>TypeError\<close> of the language for a method call on \<^verbatim>\<open>undefined\<close>.
\<close>

datatype error = Error string | TypeError

text \<open>
  \<^verbatim>\<open>
  static defaultNumber = function(value, name, offset) {
    if (!offset) return value;
    if (isNaN(value))
      throw new Error("Can't apply offset:" + offset + ' to argument `' + name +
          '` with non-numerical value ' + JSON.stringify(value) + '.');
    return value - offset;
  };\<close>
  An absent \<^verbatim>\<open>offset\<close> is \<^verbatim>\<open>undefined\<close>. The name is a string
  (\<^verbatim>\<open>@param {string} name\<close>).
\<close>

definition defaultNumber :: "jsval \<Rightarrow> string \<Rightarrow> jsval \<Rightarrow> error + jsval" where
  "defaultNumber value name offset =
     (if \<not> to_boolean offset then Inr value
      else if isNaN value then
        Inl (Error (''Can'' @ [CHR 0x27] @ ''t apply offset:'' @ to_string offset
                    @ '' to argument `'' @ name @ ''` with non-numerical value ''
                    @ json_stringify value @ ''.''))
      else Inr (js_sub value offset))"

text \<open>
  \<^verbatim>\<open>
  static strictNumber = function(value, name, offset) {
    if (isNaN(value))
      throw new Error('Argument `' + name + '` has non-numerical value ' +
          JSON.stringify(value) + '.');
    return value - (offset || 0);
  };\<close>
\<close>

definition strictNumber :: "jsval \<Rightarrow> string \<Rightarrow> jsval \<Rightarrow> error + jsval" where
  "strictNumber value name offset =
     (if isNaN value then
        Inl (Error (''Argument `'' @ name @ ''` has non-numerical value ''
                    @ json_stringify value @ ''.''))
      else Inr (js_sub value (js_or offset (Num (Fin 0)))))"

section \<open>The plural and select primitives\<close>

text \<open>
  The case table \<^verbatim>\<open>data\<close> is a plain object, a map from its own property names to
  the case values. Reading a property that is absent gives \<^verbatim>\<open>undefined\<close>, here
  \<open>None\<close>; a case value itself is never \<^verbatim>\<open>undefined\<close>.
\<close>

type_synonym 'a cases = "string \<rightharpoonup> 'a"

text \<open>
  A locale function of \<^verbatim>\<open>pluralFuncs\<close> maps the value and the ordinal flag to one of
  the six plural categories. None of their names is a property of \<^verbatim>\<open>Object.prototype\<close>,
  so for them \<^verbatim>\<open>key in data\<close> is the test for an own property.
\<close>

datatype category = Zero | One | Two | Few | Many | Other

fun category_key :: "category \<Rightarrow> string" where
  "category_key Zero = ''zero''"
| "category_key One = ''one''"
| "category_key Two = ''two''"
| "category_key Few = ''few''"
| "category_key Many = ''many''"
| "category_key Other = ''other''"

type_synonym plural_fn = "jsval \<Rightarrow> jsval \<Rightarrow> category"

text \<open>\<^verbatim>\<open>{}.hasOwnProperty.call(data, value)\<close>\<close>

definition hasOwnProperty :: "'a cases \<Rightarrow> jsval \<Rightarrow> bool" where
  "hasOwnProperty data value = (data (to_property_key value) \<noteq> None)"

text \<open>
  \<^verbatim>\<open>
  plural = function(value, offset, lcfunc, data, isOrdinal) {
    if ({}.hasOwnProperty.call(data, value)) return data[value];
    if (offset) value -= offset;
    var key = lcfunc(value, isOrdinal);
    return key in data ? data[key] : data.other;
  };\<close>
\<close>

definition plural :: "jsval \<Rightarrow> jsval \<Rightarrow> plural_fn \<Rightarrow> 'a cases \<Rightarrow> jsval \<Rightarrow> 'a option" where
  "plural value offset lcfunc data isOrdinal =
     (if hasOwnProperty data value then data (to_property_key value)
      else
        let value' = (if to_boolean offset then js_sub value offset else value);
            key = category_key (lcfunc value' isOrdinal)
        in if data key \<noteq> None then data key else data ''other'')"

text \<open>
  \<^verbatim>\<open>
  select = function(value, data) {
    return {}.hasOwnProperty.call(data, value) ? data[value] : data.other;
  };\<close>
\<close>

definition select :: "jsval \<Rightarrow> 'a cases \<Rightarrow> 'a option" where
  "select value data =
     (if hasOwnProperty data value then data (to_property_key value) else data ''other'')"

text \<open>
  The dispatch of \<^verbatim>\<open>plural\<close> in the words of the specification, for comparison with
  the code: an exact match on \<^verbatim>\<open>cases[String(value)]\<close> first; otherwise
  \<^verbatim>\<open>adjusted = value - (offset||0)\<close>, \<^verbatim>\<open>category = pluralRuleFn(adjusted, isOrdinal)\<close>,
  and \<^verbatim>\<open>cases[category]\<close> if present, else \<^verbatim>\<open>cases.other\<close>.
\<close>

definition plural_spec :: "jsval \<Rightarrow> jsval \<Rightarrow> plural_fn \<Rightarrow> 'a cases \<Rightarrow> jsval \<Rightarrow> 'a option" where
  "plural_spec value offset pluralRuleFn cases' isOrdinal =
     (case cases' (to_string value) of
        Some r \<Rightarrow> Some r
      | None \<Rightarrow>
          let adjusted = js_sub value (js_or offset (Num (Fin 0)));
              category = category_key (pluralRuleFn adjusted isOrdinal)
          in (case cases' category of Some r \<Rightarrow> Some r | None \<Rightarrow> cases' ''other''))"

text \<open>
  A plural function of the caller's own, which the constructor of \<^verbatim>\<open>MessageFormat\<close>
  accepts (\<^verbatim>\<open>locales?: { [locale: string]: Function }\<close>):
  \<^verbatim>\<open>function (n) { return n === 1 ? 'one' : 'other' }\<close>.
\<close>

definition one_if_1 :: plural_fn where
  "one_if_1 n ord = (if n = Num (Fin 1) then One else Other)"

section \<open>A compiled message\<close>

text \<open>
  Modelled from the spec: a part of the English plural function below, which is not
  among the sources. The string of the value shows no fraction digit: it has no point,
  or nothing between the first point and the next.
\<close>

definition no_fraction_digits :: "jsval \<Rightarrow> bool" where
  "no_fraction_digits n =
     (let r = dropWhile (\<lambda>c. c \<noteq> CHR ''.'') (to_string n)
      in r = [] \<or> takeWhile (\<lambda>c. c \<noteq> CHR ''.'') (tl r) = [])"

text \<open>
  Modelled from the spec: the English function of the Plural-Rule Registry, an external
  collaborator that is not among the sources. The spec gives its contract, a pure
  function from the numeric value and the ordinal flag to a category key; the rule is
  the CLDR one for English: cardinal \<^verbatim>\<open>one\<close> for the value 1 written without fraction
  digits and \<^verbatim>\<open>other\<close> otherwise; ordinal \<^verbatim>\<open>one\<close>, \<^verbatim>\<open>two\<close>, \<^verbatim>\<open>few\<close> for an integer
  that ends in 1, 2, 3 but not in 11, 12, 13, and \<^verbatim>\<open>other\<close> otherwise.
\<close>

definition en :: plural_fn where
  "en n ord =
     (case to_number n of
        Fin q \<Rightarrow>
          if to_boolean ord then
            (if q \<noteq> of_int \<lfloor>q\<rfloor> then Other
             else
               let i = \<bar>\<lfloor>q\<rfloor>\<bar> in
               if i mod 10 = 1 \<and> i mod 100 \<noteq> 11 then One
               else if i mod 10 = 2 \<and> i mod 100 \<noteq> 12 then Two
               else if i mod 10 = 3 \<and> i mod 100 \<noteq> 13 then Few
               else Other)
          else if q = 1 \<and> n \<noteq> Null \<and> no_fraction_digits n then One else Other
      | _ \<Rightarrow> Other)"

text \<open>
  Modelled from the spec: the function compiled for English from the message
  \<^verbatim>\<open>{count, plural, offset:1 =0{no one} one{you and one other} other{you and # others}}\<close>
  (the compiler is not among the sources). By the spec a selector block is lowered to a
  call of the runtime's \<^verbatim>\<open>plural\<close> with the raw argument value, the offset, the
  locale's plural-rule function, a mapping from each case key to what produces that
  sub-message's output, and the ordinal flag (absent for \<^verbatim>\<open>plural\<close>); the case
  \<^verbatim>\<open>=0\<close> has the key \<^verbatim>\<open>0\<close>; a \<^verbatim>\<open>#\<close> is the runtime's \<^verbatim>\<open>number\<close> applied to the
  argument, its name and the offset, concatenated with the literal text around it.
  The output of a sub-message is a string, or the error thrown while producing it. The
  first parameter is the \<^verbatim>\<open>number\<close> primitive of the runtime in use.
\<close>

definition offset_message ::
  "(jsval \<Rightarrow> string \<Rightarrow> jsval \<Rightarrow> error + jsval) \<Rightarrow> plural_fn \<Rightarrow> jsval \<Rightarrow> (error + string) option" where
  "offset_message number' lcfunc count =
     plural count (Num (Fin 1)) lcfunc
       [''0'' \<mapsto> Inr ''no one'',
        ''one'' \<mapsto> Inr ''you and one other'',
        ''other'' \<mapsto>
          (case number' count ''count'' (Num (Fin 1)) of
             Inl e \<Rightarrow> Inl e
           | Inr n \<Rightarrow> Inr (''you and '' @ to_string n @ '' others''))]
       Undefined"

section \<open>Objects and functions\<close>

text \<open>
  \<^verbatim>\<open>toString\<close> collects the plural functions, the runtime functions and the
  formatters that the compiler has recorded into one object and prints it as source
  text. It observes a function only through its source text
  (\<^verbatim>\<open>Function.prototype.toString\<close>), so here a function is that text. An object is the
  list of its own enumerable properties in the order of \<^verbatim>\<open>for..in\<close>: the array
  indices ascending, then the other names in the order of their creation. The special
  name \<^verbatim>\<open>__proto__\<close> is not modelled.
\<close>

datatype jsobj = Undef | Fn string | Ob "(string \<times> jsobj) list"

text \<open>An array index is a canonical decimal numeral below \<open>2 ^ 32 - 1\<close>.\<close>

definition array_index :: "string \<Rightarrow> nat option" where
  "array_index k =
     (if k \<noteq> [] \<and> list_all (is_digit 10) k \<and> (k = ''0'' \<or> hd k \<noteq> CHR ''0'')
         \<and> digits_val 10 k < 2 ^ 32 - 1
      then Some (digits_val 10 k) else None)"

text \<open>Where a new property goes: before the first one that \<^verbatim>\<open>for..in\<close> visits later.\<close>

fun insert_key :: "string \<Rightarrow> 'a \<Rightarrow> (string \<times> 'a) list \<Rightarrow> (string \<times> 'a) list" where
  "insert_key k v [] = [(k, v)]"
| "insert_key k v ((k', v') # ps) =
     (case array_index k of
        None \<Rightarrow> (k', v') # insert_key k v ps
      | Some n \<Rightarrow>
          (case array_index k' of
             None \<Rightarrow> (k, v) # (k', v') # ps
           | Some n' \<Rightarrow> if n < n' then (k, v) # (k', v') # ps else (k', v') # insert_key k v ps))"

text \<open>The assignment \<^verbatim>\<open>obj[k] = v\<close>: an existing property keeps its place.\<close>

definition obj_put :: "(string \<times> 'a) list \<Rightarrow> string \<Rightarrow> 'a \<Rightarrow> (string \<times> 'a) list" where
  "obj_put ps k v =
     (if k \<in> set (map fst ps) then map (\<lambda>(k', v'). if k' = k then (k', v) else (k', v')) ps
      else insert_key k v ps)"

section \<open>The constructor\<close>

text \<open>
  \<^verbatim>\<open>MessageFormat.Options\<close>: three optional fields; a formatter is
  \<^verbatim>\<open>(val: any, lc: string, arg?: string) => string\<close>.
\<close>

type_synonym formatter = "jsval \<Rightarrow> string \<Rightarrow> string option \<Rightarrow> string"

record Options =
  biDiSupport :: "bool option"
  customFormatters :: "(string \<times> formatter) list option"
  strictNumberSign :: "bool option"

text \<open>
  A function of the class is used in two ways: it is called by the compiled code, and it
  is printed by \<^verbatim>\<open>toString\<close>, which sees its source text
  (\<^verbatim>\<open>Function.prototype.toString\<close> gives the text of the function expression, from the
  word \<^verbatim>\<open>function\<close> to the closing brace). A function value is both.
\<close>

record 'f function_value =
  call :: 'f
  source :: string

text \<open>The text with these lines.\<close>

definition source_text :: "string list \<Rightarrow> string" where
  "source_text ls = join [CHR 0x0A] ls"

text \<open>The texts of the four function expressions of the class, as they are written.\<close>

definition defaultNumber_source :: string where
  "defaultNumber_source =
     source_text
     [''function(value, name, offset) {'',
      ''    if (!offset) return value;'',
      ''    if (isNaN(value))'',
      ''      throw new Error('',
      ''        '' @ [CHR 0x22] @ ''Can'' @ [CHR 0x27] @ ''t apply offset:'' @ [CHR 0x22] @ '' +'',
      ''          offset +'',
      ''          '' @ [CHR 0x27] @ '' to argument `'' @ [CHR 0x27] @ '' +'',
      ''          name +'',
      ''          '' @ [CHR 0x27] @ ''` with non-numerical value '' @ [CHR 0x27] @ '' +'',
      ''          JSON.stringify(value) +'',
      ''          '' @ [CHR 0x27] @ ''.'' @ [CHR 0x27],
      ''      );'',
      ''    return value - offset;'',
      ''  }'']"

definition strictNumber_source :: string where
  "strictNumber_source =
     source_text
     [''function(value, name, offset) {'',
      ''    if (isNaN(value))'',
      ''      throw new Error('',
      ''        '' @ [CHR 0x27] @ ''Argument `'' @ [CHR 0x27] @ '' +'',
      ''          name +'',
      ''          '' @ [CHR 0x27] @ ''` has non-numerical value '' @ [CHR 0x27] @ '' +'',
      ''          JSON.stringify(value) +'',
      ''          '' @ [CHR 0x27] @ ''.'' @ [CHR 0x27],
      ''      );'',
      ''    return value - (offset || 0);'',
      ''  }'']"

definition plural_source :: string where
  "plural_source =
     source_text
     [''function(value, offset, lcfunc, data, isOrdinal) {'',
      ''    if ({}.hasOwnProperty.call(data, value)) return data[value];'',
      ''    if (offset) value -= offset;'',
      ''    var key = lcfunc(value, isOrdinal);'',
      ''    return key in data ? data[key] : data.other;'',
      ''  }'']"

definition select_source :: string where
  "select_source =
     source_text
     [''function(value, data) {'',
      ''    return {}.hasOwnProperty.call(data, value) ? data[value] : data.other;'',
      ''  }'']"

text \<open>\<^verbatim>\<open>Runtime.defaultNumber\<close> and \<^verbatim>\<open>Runtime.strictNumber\<close>, the two static members.\<close>

type_synonym number_function = "(jsval \<Rightarrow> string \<Rightarrow> jsval \<Rightarrow> error + jsval) function_value"

definition Runtime_defaultNumber :: number_function where
  "Runtime_defaultNumber = \<lparr> call = defaultNumber, source = defaultNumber_source \<rparr>"

definition Runtime_strictNumber :: number_function where
  "Runtime_strictNumber = \<lparr> call = strictNumber, source = strictNumber_source \<rparr>"

text \<open>
  \<^verbatim>\<open>
  constructor({ strictNumberSign }, compiler, pluralFuncs) {
    this.number = strictNumberSign ? Runtime.strictNumber : Runtime.defaultNumber;
    this.compiler = compiler;
    this.pluralFuncs = pluralFuncs;
  }\<close>
  The fields \<^verbatim>\<open>plural\<close> and \<^verbatim>\<open>select\<close> of an instance are the two functions above,
  the same for every instance.
\<close>

record ('c, 'p) Runtime =
  number :: number_function
  compiler :: 'c
  pluralFuncs :: 'p

definition Runtime_new :: "Options \<Rightarrow> 'c \<Rightarrow> 'p \<Rightarrow> ('c, 'p) Runtime" where
  "Runtime_new options compiler' pluralFuncs' =
     \<lparr> number = (if strictNumberSign options = Some True then Runtime_strictNumber
                 else Runtime_defaultNumber),
       compiler = compiler',
       pluralFuncs = pluralFuncs' \<rparr>"

text \<open>
  The property read \<^verbatim>\<open>this[fn]\<close> on an instance. Its fields \<^verbatim>\<open>number\<close>, \<^verbatim>\<open>plural\<close>
  and \<^verbatim>\<open>select\<close> hold functions, which the rendering sees as their source texts. The
  other properties of an instance (its fields \<^verbatim>\<open>compiler\<close> and \<^verbatim>\<open>pluralFuncs\<close>, and
  what it inherits) are not modelled: the parameter \<open>other\<close> gives them, \<open>Undef\<close> where
  there is none.
\<close>

definition this_get :: "(string \<Rightarrow> jsobj) \<Rightarrow> ('c, 'p) Runtime \<Rightarrow> string \<Rightarrow> jsobj" where
  "this_get other this fn =
     (if fn = ''number'' then Fn (source (number this))
      else if fn = ''plural'' then Fn plural_source
      else if fn = ''select'' then Fn select_source
      else other fn)"

section \<open>Rendering the runtime\<close>

text \<open>
  The part of the compiler that \<^verbatim>\<open>toString\<close> reads (the compiler is not among the
  sources): \<^verbatim>\<open>Object.keys\<close> of its \<^verbatim>\<open>locales\<close> and of its \<^verbatim>\<open>runtime\<close>, and the object
  \<^verbatim>\<open>formatters\<close>.
\<close>

record Compiler =
  locales :: "string list"
  runtime :: "string list"
  formatters :: "(string \<times> jsobj) list"

text \<open>The line terminators and the word characters of a regular expression.\<close>

definition is_lt :: "char \<Rightarrow> bool" where
  "is_lt c = (c = CHR 0x0A \<or> c = CHR 0x0D)"

definition is_word :: "char \<Rightarrow> bool" where
  "is_word c =
     (let n = (of_char c :: nat) in
      (48 \<le> n \<and> n \<le> 57) \<or> (65 \<le> n \<and> n \<le> 90) \<or> (97 \<le> n \<and> n \<le> 122) \<or> c = CHR ''_'')"

text \<open>
  The lines of a text, each with its terminator; the last one has none, and is empty
  when the text ends with a terminator. These are the places where \<^verbatim>\<open>^\<close> matches
  under the flag \<^verbatim>\<open>m\<close>.
\<close>

fun split_lines :: "string \<Rightarrow> string list" where
  "split_lines [] = [[]]"
| "split_lines (c # cs) =
     (if is_lt c then [c] # split_lines cs
      else (case split_lines cs of l # ls \<Rightarrow> (c # l) # ls | [] \<Rightarrow> [[c]]))"

text \<open>\<^verbatim>\<open>.replace(/^(function )\w*/, '$1')\<close>\<close>

definition strip_name :: "string \<Rightarrow> string" where
  "strip_name s =
     (if take 9 s = ''function '' then ''function '' @ dropWhile is_word (drop 9 s) else s)"

text \<open>
  \<^verbatim>\<open>/([ \t]*)\S.*$/.exec(funcStr)\<close>: the match ends at the end of the text and cannot
  cross a line terminator, so it lies in the last line, and starts with the blanks just
  before the first character of that line that is not white space. The result is the
  group, or \<open>None\<close> when the last line has no such character.
\<close>

definition func_indent :: "string \<Rightarrow> string option" where
  "func_indent s =
     (let l = last (split_lines s);
          pre = takeWhile is_ws l
      in if length pre = length l then None
         else Some (rev (takeWhile (\<lambda>c. c = CHR 0x20 \<or> c = CHR 0x09) (rev pre))))"

text \<open>\<^verbatim>\<open>.replace(new RegExp('^' + indent, 'mg'), '')\<close>\<close>

definition remove_indent :: "string \<Rightarrow> string \<Rightarrow> string" where
  "remove_indent indent s =
     concat (map (\<lambda>l. if take (length indent) l = indent then drop (length indent) l else l)
                 (split_lines s))"

text \<open>\<^verbatim>\<open>.replace(/^/gm, indent)\<close>\<close>

definition add_indent :: "string \<Rightarrow> string \<Rightarrow> string" where
  "add_indent indent s = concat (map (\<lambda>l. indent @ l) (split_lines s))"

text \<open>The branch of \<^verbatim>\<open>_stringify\<close> for a function.\<close>

definition function_text :: "string \<Rightarrow> string" where
  "function_text src =
     (let funcStr = strip_name src in
      case func_indent funcStr of
        Some indent \<Rightarrow> remove_indent indent funcStr
      | None \<Rightarrow> funcStr)"

text \<open>
  \<^verbatim>\<open>
  function _stringify(o, level) {
    if (typeof o != 'object') {
      const funcStr = o.toString().replace(/^(function )\w*/, '$1');
      const funcIndent = /([ \t]*)\S.*$/.exec(funcStr);
      return funcIndent
        ? funcStr.replace(new RegExp('^' + funcIndent[1], 'mg'), '')
        : funcStr;
    }
    const s = [];
    for (let i in o) {
      const v = _stringify(o[i], level + 1);
      s.push(level === 0 ? `var ${i} = ${v};\n` : `${propname(i)}: ${v}`);
    }
    if (level === 0) return s.join('');
    if (s.length === 0) return '{}';
    let indent = '  ';
    while (--level) indent += '  ';
    const oc = s.join(',\n').replace(/^/gm, indent);
    return `{\n${oc}\n}`;
  }\<close>
  \<^verbatim>\<open>propname\<close> comes from a module that is not among the sources and is a parameter.
  On \<^verbatim>\<open>undefined\<close> the call \<^verbatim>\<open>o.toString()\<close> throws a \<^verbatim>\<open>TypeError\<close>. The loop
  \<^verbatim>\<open>while (--level)\<close> leaves two blanks for each level.
\<close>

text \<open>What the loop pushes for the property \<open>i\<close> whose value has the text \<open>v\<close>.\<close>

definition entry_text :: "(string \<Rightarrow> string) \<Rightarrow> nat \<Rightarrow> string \<Rightarrow> string \<Rightarrow> string" where
  "entry_text propname level i v =
     (if level = 0 then ''var '' @ i @ '' = '' @ v @ '';'' @ [CHR 0x0A]
      else propname i @ '': '' @ v)"

fun stringify :: "(string \<Rightarrow> string) \<Rightarrow> jsobj \<Rightarrow> nat \<Rightarrow> error + string"
  and stringify_props :: "(string \<Rightarrow> string) \<Rightarrow> (string \<times> jsobj) list \<Rightarrow> nat \<Rightarrow> error + string list"
where
  "stringify propname Undef level = Inl TypeError"
| "stringify propname (Fn src) level = Inr (function_text src)"
| "stringify propname (Ob props) level =
     (case stringify_props propname props level of
        Inl e \<Rightarrow> Inl e
      | Inr s \<Rightarrow>
          Inr (if level = 0 then join [] s
               else if s = [] then ''{}''
               else ''{'' @ [CHR 0x0A]
                    @ add_indent (replicate (2 * level) (CHR 0x20)) (join ('','' @ [CHR 0x0A]) s)
                    @ [CHR 0x0A] @ ''}''))"
| "stringify_props propname [] level = Inr []"
| "stringify_props propname ((i, v) # ps) level =
     (case stringify propname v (level + 1) of
        Inl e \<Rightarrow> Inl e
      | Inr t \<Rightarrow>
          (case stringify_props propname ps level of
             Inl e \<Rightarrow> Inl e
           | Inr s \<Rightarrow>
               Inr (entry_text propname level i t # s)))"

text \<open>
  \<^verbatim>\<open>
  toString() {
    const obj = {};
    const lcKeys = Object.keys(this.compiler.locales);
    for (let i = 0; i < lcKeys.length; ++i) {
      const lc = lcKeys[i];
      obj[funcname(lc)] = this.pluralFuncs[lc];
    }
    const rtKeys = Object.keys(this.compiler.runtime);
    for (let i = 0; i < rtKeys.length; ++i) {
      const fn = rtKeys[i];
      obj[fn] = this[fn];
    }
    if (Object.keys(this.compiler.formatters).length > 0) {
      obj.fmt = this.compiler.formatters;
    }
    return _stringify(obj, 0);
  }\<close>
  \<^verbatim>\<open>funcname\<close> comes from the module that is not among the sources and is a parameter.
  \<open>pluralFuncs\<close> gives \<^verbatim>\<open>this.pluralFuncs[lc]\<close>, \<open>Undef\<close> where there is none, and
  \<open>this_get\<close> gives the property \<^verbatim>\<open>this[fn]\<close> of the instance.
\<close>

definition toString_obj ::
  "(string \<Rightarrow> string) \<Rightarrow> (string \<Rightarrow> jsobj) \<Rightarrow> (Compiler, string \<Rightarrow> jsobj) Runtime
     \<Rightarrow> (string \<times> jsobj) list" where
  "toString_obj funcname other this =
     (let obj0 = foldl (\<lambda>obj lc. obj_put obj (funcname lc) (pluralFuncs this lc)) []
                   (locales (compiler this));
          obj1 = foldl (\<lambda>obj fn. obj_put obj fn (this_get other this fn)) obj0
                   (runtime (compiler this))
      in if formatters (compiler this) \<noteq> []
         then obj_put obj1 ''fmt'' (Ob (formatters (compiler this)))
         else obj1)"

definition toString ::
  "(string \<Rightarrow> string) \<Rightarrow> (string \<Rightarrow> string) \<Rightarrow> (string \<Rightarrow> jsobj)
     \<Rightarrow> (Compiler, string \<Rightarrow> jsobj) Runtime \<Rightarrow> error + string" where
  "toString funcname propname other this =
     stringify propname (Ob (toString_obj funcname other this)) 0"

section \<open>The dependency set\<close>

text \<open>
  Modelled from the spec: the nodes of a message (section 3, AST Node; the compiler and
  the parser are not among the sources): literal text, an argument, a formatted
  argument with its name, format type and style, and a selector block with its kind,
  argument, offset and cases, each case a key and a sub-message. A \<^verbatim>\<open>#\<close> in a plural case
  (glossary, Offset) is a node too.
\<close>

datatype kind = Plural | Selectordinal | Select

datatype node =
    Literal string
  | Argument string
  | FormatArg string string "string option"
  | SelectorBlock kind string "rat option" "(string \<times> node list) list"
  | Octothorpe

text \<open>
  Modelled from the spec: the runtime helpers that the lowering of a node invokes (section
  4.2): a selector block is lowered to a call of \<^verbatim>\<open>runtime.plural\<close> or
  \<^verbatim>\<open>runtime.select\<close>, per kind, and its sub-messages are lowered in turn; a \<^verbatim>\<open>#\<close> is
  the primitive \<^verbatim>\<open>number\<close> (section 4.3).
\<close>

fun invoked_helpers :: "node \<Rightarrow> string list" where
  "invoked_helpers (Literal t) = []"
| "invoked_helpers (Argument a) = []"
| "invoked_helpers (FormatArg a t s) = []"
| "invoked_helpers (SelectorBlock k a off cs) =
     (if k = Select then ''select'' else ''plural'')
       # concat (map (\<lambda>c. concat (map invoked_helpers (snd c))) cs)"
| "invoked_helpers Octothorpe = [''number'']"

text \<open>
  Modelled from the spec: the formatters that the lowering of a node invokes (section 4.2):
  a formatted argument is lowered to a call of the formatter registered for its type.
\<close>

fun invoked_formatters :: "node \<Rightarrow> string list" where
  "invoked_formatters (Literal t) = []"
| "invoked_formatters (Argument a) = []"
| "invoked_formatters (FormatArg a t s) = [t]"
| "invoked_formatters (SelectorBlock k a off cs) =
     concat (map (\<lambda>c. concat (map invoked_formatters (snd c))) cs)"
| "invoked_formatters Octothorpe = []"

text \<open>
  Modelled from the spec: whether the lowering of a node invokes the plural function of
  the active locale (section 4.2): the call of \<^verbatim>\<open>runtime.plural\<close> for the kinds plural
  and selectordinal passes it.
\<close>

fun invokes_plural_function :: "node \<Rightarrow> bool" where
  "invokes_plural_function (Literal t) = False"
| "invokes_plural_function (Argument a) = False"
| "invokes_plural_function (FormatArg a t s) = False"
| "invokes_plural_function (SelectorBlock k a off cs) =
     (k \<noteq> Select \<or> list_ex (\<lambda>c. list_ex invokes_plural_function (snd c)) cs)"
| "invokes_plural_function Octothorpe = False"

text \<open>
  Modelled from the spec: names recorded by setting a property of an object for each;
  \<^verbatim>\<open>Object.keys\<close> of that object.
\<close>

definition recorded :: "string list \<Rightarrow> string list" where
  "recorded names = map fst (foldl (\<lambda>obj k. obj_put obj k True) [] names)"

text \<open>
  Modelled from the spec: the DependencySet of a compilation (sections 3 and 4.2), as the
  state of the compiler that \<^verbatim>\<open>toString\<close> reads. ``A helper, locale plural-function, or
  formatter is added to the set if and only if at least one emitted node in the
  resulting artifact invokes it.'' The artifact is given by its leaves, each the
  message of a leaf with its active locale; \<open>table\<close> gives the formatter registered for a
  type.
\<close>

definition dependency_set :: "(string \<Rightarrow> jsobj) \<Rightarrow> (string \<times> node list) list \<Rightarrow> Compiler" where
  "dependency_set table leaves =
     \<lparr> locales =
         recorded (concat (map (\<lambda>l. if list_ex invokes_plural_function (snd l) then [fst l] else [])
                               leaves)),
       runtime = recorded (concat (map (\<lambda>l. concat (map invoked_helpers (snd l))) leaves)),
       formatters =
         foldl (\<lambda>obj t. obj_put obj t (table t)) []
           (concat (map (\<lambda>l. concat (map invoked_formatters (snd l))) leaves)) \<rparr>"

section \<open>Two compilations\<close>

text \<open>
  The options without \<^verbatim>\<open>strictNumberSign\<close> and with it.
\<close>

definition default_options :: Options where
  "default_options = \<lparr> biDiSupport = None, customFormatters = None, strictNumberSign = None \<rparr>"

definition strict_options :: Options where
  "strict_options =
     \<lparr> biDiSupport = None, customFormatters = None, strictNumberSign = Some True \<rparr>"

text \<open>
  An instance has no property but those of \<open>this_get\<close> here.
\<close>

definition no_other :: "string \<Rightarrow> jsobj" where
  "no_other fn = Undef"

text \<open>
  One message for the locale \<^verbatim>\<open>en\<close>,
  \<^verbatim>\<open>{count, plural, offset:1 one{one item} other{# items}} on {d, date}\<close>, with a
  formatter for \<^verbatim>\<open>date\<close> and a plural function for \<^verbatim>\<open>en\<close>.
\<close>

definition example_leaves :: "(string \<times> node list) list" where
  "example_leaves =
     [(''en'',
       [SelectorBlock Plural ''count'' (Some 1)
          [(''one'', [Literal ''one item'']), (''other'', [Octothorpe, Literal '' items''])],
        Literal '' on '',
        FormatArg ''d'' ''date'' None])]"

definition example_table :: "string \<Rightarrow> jsobj" where
  "example_table t =
     (if t = ''date'' then Fn ''function date(v, lc, p) { return v; }'' else Undef)"

definition example_pluralFuncs :: "string \<Rightarrow> jsobj" where
  "example_pluralFuncs lc =
     (if lc = ''en'' then
        Fn (source_text
       [''function en(n, ord) {'',
        ''      return n == 1 ? '' @ [CHR 0x27] @ ''one'' @ [CHR 0x27] @ '' : '' @ [CHR 0x27] @ ''other'' @ [CHR 0x27] @ '';'',
        ''    }''])
      else Undef)"



section \<open>Facts about the conversions\<close>

lemma num_sub_zero: "num_sub n (Fin 0) = n"
  by (cases n) simp_all

lemma js_or_falsy: "\<not> to_boolean a \<Longrightarrow> js_or a b = b"
  by (simp add: js_or_def)

lemma js_sub_zero: "js_sub v (Num (Fin 0)) = Num (to_number v)"
  by (simp add: js_sub_def num_sub_zero)

lemma isNaN_abc: "isNaN (Str ''abc'')"
  by code_simp

lemma not_isNaN_5: "\<not> isNaN (Str ''5'')"
  by code_simp

lemma to_number_5: "to_number (Str ''5'') = Fin 5"
  by code_simp

section \<open>The number primitive: results\<close>

text \<open>
  C1, as the code has it. With the offset zero or absent, \<^verbatim>\<open>defaultNumber\<close> returns the
  value unchanged, whatever it is. \<^verbatim>\<open>strictNumber\<close> does not: it throws when the value
  is not numeric, and otherwise returns the number \<^verbatim>\<open>value - 0\<close>, which is the value
  itself when the value is a number and its numeric reading otherwise.
\<close>

theorem number_offset_zero:
  assumes "offset = Num (Fin 0) \<or> offset = Undefined"
  shows "defaultNumber v name offset = Inr v
       \<and> (isNaN v \<longrightarrow> (\<exists>msg. strictNumber v name offset = Inl (Error msg)))
       \<and> (\<not> isNaN v \<longrightarrow> strictNumber v name offset = Inr (Num (to_number v)))
       \<and> (\<forall>n. v = Num n \<and> n \<noteq> NaN \<longrightarrow> strictNumber v name offset = Inr v)"
proof -
  from assms have falsy: "\<not> to_boolean offset" by auto
  then have dflt: "defaultNumber v name offset = Inr v"
    by (simp add: defaultNumber_def)
  from falsy have sub: "js_sub v (js_or offset (Num (Fin 0))) = Num (to_number v)"
    by (simp add: js_or_falsy js_sub_zero)
  have thrown: "isNaN v \<longrightarrow> (\<exists>msg. strictNumber v name offset = Inl (Error msg))"
    by (simp add: strictNumber_def)
  have coerced: "\<not> isNaN v \<longrightarrow> strictNumber v name offset = Inr (Num (to_number v))"
    using sub by (simp add: strictNumber_def)
  have same: "\<forall>n. v = Num n \<and> n \<noteq> NaN \<longrightarrow> strictNumber v name offset = Inr v"
    using sub by (auto simp: strictNumber_def isNaN_def)
  from dflt thrown coerced same show ?thesis by blast
qed

theorem number_offset_zero_witness:
  "defaultNumber (Str ''5'') ''count'' (Num (Fin 0)) = Inr (Str ''5'')
   \<and> strictNumber (Str ''5'') ''count'' (Num (Fin 0)) = Inr (Num (Fin 5))"
  using number_offset_zero [of "Num (Fin 0)" "Str ''5''" "''count''"] not_isNaN_5 to_number_5
  by simp

text \<open>
  C1 as stated fails in strict mode: \<^verbatim>\<open>strictNumber("abc", "count", 0)\<close> throws, it does
  not return \<^verbatim>\<open>"abc"\<close>.
\<close>

theorem strictNumber_offset_zero_counterexample:
  "strictNumber (Str ''abc'') ''count'' (Num (Fin 0)) \<noteq> Inr (Str ''abc'')"
  using isNaN_abc by (simp add: strictNumber_def)

lemma defaultNumber_message:
  assumes "to_boolean offset" and "isNaN v"
  shows "\<exists>pre post. defaultNumber v name offset
           = Inl (Error (pre @ (''argument `'' @ name @ ''`'') @ post))"
proof -
  let ?pre = "''Can'' @ [CHR 0x27] @ ''t apply offset:'' @ to_string offset @ '' to ''"
  let ?post = "'' with non-numerical value '' @ json_stringify v @ ''.''"
  have "defaultNumber v name offset = Inl (Error (?pre @ (''argument `'' @ name @ ''`'') @ ?post))"
    using assms by (simp add: defaultNumber_def)
  then show ?thesis by blast
qed

lemma strictNumber_message:
  "isNaN v \<Longrightarrow>
   \<exists>post. strictNumber v name offset = Inl (Error ((''Argument `'' @ name @ ''`'') @ post))"
  by (simp add: strictNumber_def)

text \<open>
  C2. With a non-zero offset (one for which the test \<^verbatim>\<open>!offset\<close> fails),
  \<^verbatim>\<open>defaultNumber\<close> throws if and only if the value is not numeric, the message of the
  error contains the argument's name between backquotes, and otherwise the result is
  \<^verbatim>\<open>value - offset\<close>. \<^verbatim>\<open>strictNumber\<close> throws if and only if the value is not numeric,
  whatever the offset, names the argument in the same way, and otherwise returns
  \<^verbatim>\<open>value - (offset || 0)\<close>.
\<close>

theorem number_throws_iff_non_numeric:
  "(to_boolean offset \<longrightarrow>
      ((\<exists>e. defaultNumber v name offset = Inl e) \<longleftrightarrow> isNaN v)
    \<and> (\<forall>e. defaultNumber v name offset = Inl e \<longrightarrow>
          (\<exists>msg. e = Error msg \<and> sublist (''argument `'' @ name @ ''`'') msg))
    \<and> (\<not> isNaN v \<longrightarrow> defaultNumber v name offset = Inr (js_sub v offset)))
   \<and> ((\<exists>e. strictNumber v name offset = Inl e) \<longleftrightarrow> isNaN v)
   \<and> (\<forall>e. strictNumber v name offset = Inl e \<longrightarrow>
          (\<exists>msg. e = Error msg \<and> sublist (''Argument `'' @ name @ ''`'') msg))
   \<and> (\<not> isNaN v \<longrightarrow> strictNumber v name offset = Inr (js_sub v (js_or offset (Num (Fin 0)))))"
proof -
  have d1: "to_boolean offset \<Longrightarrow> (\<exists>e. defaultNumber v name offset = Inl e) \<longleftrightarrow> isNaN v"
    by (simp add: defaultNumber_def)
  have d2: "\<exists>msg. e = Error msg \<and> sublist (''argument `'' @ name @ ''`'') msg"
    if "to_boolean offset" "defaultNumber v name offset = Inl e" for e
  proof -
    from that d1 have "isNaN v" by blast
    with that(1) obtain pre post where
      "defaultNumber v name offset = Inl (Error (pre @ (''argument `'' @ name @ ''`'') @ post))"
      using defaultNumber_message by blast
    with that(2) have "e = Error (pre @ (''argument `'' @ name @ ''`'') @ post)" by simp
    then show ?thesis using sublist_appendI by blast
  qed
  have d3: "to_boolean offset \<Longrightarrow> \<not> isNaN v \<Longrightarrow> defaultNumber v name offset = Inr (js_sub v offset)"
    by (simp add: defaultNumber_def)
  have s1: "(\<exists>e. strictNumber v name offset = Inl e) \<longleftrightarrow> isNaN v"
    by (simp add: strictNumber_def)
  have s2: "\<exists>msg. e = Error msg \<and> sublist (''Argument `'' @ name @ ''`'') msg"
    if "strictNumber v name offset = Inl e" for e
  proof -
    from that s1 have "isNaN v" by blast
    then obtain post where
      "strictNumber v name offset = Inl (Error ((''Argument `'' @ name @ ''`'') @ post))"
      using strictNumber_message by blast
    with that have "e = Error ([] @ (''Argument `'' @ name @ ''`'') @ post)" by simp
    then show ?thesis using sublist_appendI by blast
  qed
  have s3: "\<not> isNaN v \<Longrightarrow> strictNumber v name offset = Inr (js_sub v (js_or offset (Num (Fin 0))))"
    by (simp add: strictNumber_def)
  from d1 d2 d3 s1 s2 s3 show ?thesis by blast
qed

theorem number_throws_iff_non_numeric_witness:
  "(\<exists>e. defaultNumber (Str ''abc'') ''count'' (Num (Fin 1)) = Inl e)
   \<and> defaultNumber (Str ''5'') ''count'' (Num (Fin 1)) = Inr (Num (Fin 4))
   \<and> (\<exists>e. strictNumber (Str ''abc'') ''count'' (Num (Fin 0)) = Inl e)
   \<and> strictNumber (Str ''5'') ''count'' (Num (Fin 1)) = Inr (Num (Fin 4))"
proof -
  have truthy: "to_boolean (Num (Fin 1))" by simp
  have sub: "js_sub (Str ''5'') (Num (Fin 1)) = Num (Fin 4)" by code_simp
  have or: "js_or (Num (Fin 1)) (Num (Fin 0)) = Num (Fin 1)" by (simp add: js_or_def)
  show ?thesis
    using number_throws_iff_non_numeric [of "Num (Fin 1)" "Str ''abc''" "''count''"]
      number_throws_iff_non_numeric [of "Num (Fin 0)" "Str ''abc''" "''count''"]
      number_throws_iff_non_numeric [of "Num (Fin 1)" "Str ''5''" "''count''"]
      truthy isNaN_abc not_isNaN_5 sub or
    by simp
qed

text \<open>
  C10. \<^verbatim>\<open>defaultNumber\<close> returns the value unchanged, without looking at it, for every
  falsy offset: in particular for \<^verbatim>\<open>0\<close>, \<^verbatim>\<open>null\<close>, \<^verbatim>\<open>undefined\<close> (an absent offset) and
  \<^verbatim>\<open>NaN\<close>.
\<close>

theorem defaultNumber_falsy_offset:
  "(\<not> to_boolean offset \<longrightarrow> defaultNumber v name offset = Inr v)
   \<and> (offset \<in> {Num (Fin 0), Null, Undefined, Num NaN} \<longrightarrow> defaultNumber v name offset = Inr v)"
  by (auto simp: defaultNumber_def)

theorem defaultNumber_falsy_offset_witness:
  "defaultNumber (Str ''abc'') ''count'' (Num NaN) = Inr (Str ''abc'')
   \<and> defaultNumber (Str ''abc'') ''count'' Null = Inr (Str ''abc'')"
  using defaultNumber_falsy_offset [of "Num NaN" "Str ''abc''" "''count''"]
    defaultNumber_falsy_offset [of Null "Str ''abc''" "''count''"]
  by simp

section \<open>The plural and select primitives: results\<close>

lemma plural_exact:
  "data (to_string value) = Some r \<Longrightarrow> plural value offset lcfunc data isOrdinal = Some r"
  by (simp add: plural_def hasOwnProperty_def to_property_key_def)

lemma plural_category:
  "data (to_string value) = None \<Longrightarrow>
   plural value offset lcfunc data isOrdinal =
     (case data (category_key
                   (lcfunc (if to_boolean offset then js_sub value offset else value) isOrdinal)) of
        Some r \<Rightarrow> Some r
      | None \<Rightarrow> data ''other'')"
  by (simp add: plural_def hasOwnProperty_def to_property_key_def Let_def split: option.split)

lemma select_exact: "data (to_string value) = Some r \<Longrightarrow> select value data = Some r"
  by (simp add: select_def hasOwnProperty_def to_property_key_def)

lemma select_other: "data (to_string value) = None \<Longrightarrow> select value data = data ''other''"
  by (simp add: select_def hasOwnProperty_def to_property_key_def)

lemma adjusted_number:
  "to_boolean offset \<or> (\<exists>n. value = Num n) \<Longrightarrow>
   js_sub value (js_or offset (Num (Fin 0)))
     = (if to_boolean offset then js_sub value offset else value)"
  by (auto simp: js_or_def js_sub_zero)

lemma to_number_1: "to_number (Str ''1'') = Fin 1"
  by code_simp

lemma to_string_1: "to_string (Num (Fin 1)) = ''1''"
  by code_simp

lemma to_string_2: "to_string (Num (Fin 2)) = ''2''"
  by code_simp

lemma to_string_3: "to_string (Num (Fin 3)) = ''3''"
  by code_simp

lemma to_string_5: "to_string (Num (Fin 5)) = ''5''"
  by code_simp

text \<open>
  C3, as the code has it. \<^verbatim>\<open>plural\<close> first looks for the own property
  \<^verbatim>\<open>String(value)\<close> of the cases, with the value as it was passed, and returns it when
  it is there. Otherwise the category is that of the adjusted value, which is
  \<^verbatim>\<open>value - offset\<close> when the offset is non-zero and the value itself, not converted to a
  number, when the offset is zero or absent; the result is the case of that category if
  there is one and the case \<^verbatim>\<open>other\<close> if not. When the offset is non-zero or the value
  is a number this is the dispatch that the specification describes.
\<close>

theorem plural_dispatch:
  "plural value offset lcfunc data isOrdinal =
     (case data (to_string value) of
        Some r \<Rightarrow> Some r
      | None \<Rightarrow>
          let adjusted = (if to_boolean offset then js_sub value offset else value);
              category = category_key (lcfunc adjusted isOrdinal)
          in (case data category of Some r \<Rightarrow> Some r | None \<Rightarrow> data ''other''))
   \<and> (to_boolean offset \<or> (\<exists>n. value = Num n) \<longrightarrow>
        plural value offset lcfunc data isOrdinal = plural_spec value offset lcfunc data isOrdinal)"
proof (cases "data (to_string value)")
  case None
  then show ?thesis
    using adjusted_number [of offset "value"]
    by (auto simp: plural_category plural_spec_def Let_def)
next
  case (Some r)
  then show ?thesis
    by (simp add: plural_exact plural_spec_def)
qed

theorem plural_dispatch_witness:
  "plural (Num (Fin 1)) (Num (Fin 0)) one_if_1 [''one'' \<mapsto> ''A'', ''other'' \<mapsto> ''B''] Undefined
     = Some ''A''
   \<and> plural_spec (Num (Fin 1)) (Num (Fin 0)) one_if_1 [''one'' \<mapsto> ''A'', ''other'' \<mapsto> ''B''] Undefined
     = Some ''A''"
  using plural_dispatch [of "Num (Fin 1)" "Num (Fin 0)" one_if_1
      "[''one'' \<mapsto> ''A'', ''other'' \<mapsto> ''B'']" Undefined] to_string_1
  by (auto simp: one_if_1_def)

text \<open>
  C3 as stated fails for a value that is not a number when the offset is zero: the code
  passes the string \<^verbatim>\<open>"1"\<close> to the plural function, the specification's dispatch
  passes the number \<^verbatim>\<open>"1" - 0\<close>, and a plural function may tell them apart.
\<close>

theorem plural_spec_counterexample:
  "plural (Str ''1'') (Num (Fin 0)) one_if_1 [''one'' \<mapsto> ''A'', ''other'' \<mapsto> ''B''] Undefined
     = Some ''B''
   \<and> plural_spec (Str ''1'') (Num (Fin 0)) one_if_1 [''one'' \<mapsto> ''A'', ''other'' \<mapsto> ''B''] Undefined
     = Some ''A''"
  using to_number_1
  by (simp add: plural_def plural_spec_def hasOwnProperty_def to_property_key_def one_if_1_def
      js_or_def js_sub_def)

text \<open>
  C4. \<^verbatim>\<open>select\<close> returns the case whose key is the value when there is one, and the
  case \<^verbatim>\<open>other\<close> for every other value. The key of a string is the string itself,
  character for character: nothing is trimmed, folded or read as a number.
\<close>

theorem select_dispatch:
  "select value data
     = (case data (to_string value) of Some r \<Rightarrow> Some r | None \<Rightarrow> data ''other'')
   \<and> (data k = Some r \<longrightarrow> select (Str k) data = Some r)
   \<and> (data k = None \<longrightarrow> select (Str k) data = data ''other'')"
  by (simp add: select_exact select_other split: option.split)

theorem select_dispatch_witness:
  "select (Str ''male'') [''male'' \<mapsto> ''He'', ''other'' \<mapsto> ''They''] = Some ''He''
   \<and> select (Str ''Male'') [''male'' \<mapsto> ''He'', ''other'' \<mapsto> ''They''] = Some ''They''"
  using select_dispatch [of "Str ''male''" "[''male'' \<mapsto> ''He'', ''other'' \<mapsto> ''They'']"
      "''male''" "''He''"]
    select_dispatch [of "Str ''Male''" "[''male'' \<mapsto> ''He'', ''other'' \<mapsto> ''They'']"
      "''Male''" "''He''"]
  by simp

text \<open>
  C5. A value whose string is a declared case key selects exactly that case, in
  \<^verbatim>\<open>select\<close> and in \<^verbatim>\<open>plural\<close>, whatever the offset and the plural function.
\<close>

theorem declared_key_selects_its_case:
  assumes "data (to_string v) = Some r"
  shows "select v data = Some r \<and> plural v offset lcfunc data isOrdinal = Some r"
  using assms by (simp add: select_exact plural_exact)

theorem declared_key_selects_its_case_witness:
  "select (Str ''one'') [''0'' \<mapsto> ''none'', ''one'' \<mapsto> ''single'', ''other'' \<mapsto> ''many'']
     = Some ''single''
   \<and> plural (Str ''one'') (Num (Fin 1)) en
       [''0'' \<mapsto> ''none'', ''one'' \<mapsto> ''single'', ''other'' \<mapsto> ''many''] Undefined
     = Some ''single''
   \<and> plural (Num (Fin 0)) (Num (Fin 1)) en
       [''0'' \<mapsto> ''none'', ''one'' \<mapsto> ''single'', ''other'' \<mapsto> ''many''] Undefined
     = Some ''none''"
  using declared_key_selects_its_case
      [of "[''0'' \<mapsto> ''none'', ''one'' \<mapsto> ''single'', ''other'' \<mapsto> ''many'']"
          "Str ''one''" "''single''" "Num (Fin 1)" en Undefined]
    declared_key_selects_its_case
      [of "[''0'' \<mapsto> ''none'', ''one'' \<mapsto> ''single'', ''other'' \<mapsto> ''many'']"
          "Num (Fin 0)" "''none''" "Num (Fin 1)" en Undefined]
  by simp

text \<open>
  C9. Neither primitive checks that the case \<^verbatim>\<open>other\<close> exists. When the cases have no
  key for the value, none for the computed category and no \<^verbatim>\<open>other\<close>, the result is
  \<^verbatim>\<open>undefined\<close> (\<open>None\<close>). Both functions are total: they have no \<^verbatim>\<open>throw\<close>.
\<close>

theorem no_other_gives_undefined:
  "(data (to_string value) = None
      \<and> data (category_key
                (lcfunc (if to_boolean offset then js_sub value offset else value) isOrdinal))
          = None
      \<and> data ''other'' = None
    \<longrightarrow> plural value offset lcfunc data isOrdinal = None)
   \<and> (data (to_string value) = None \<and> data ''other'' = None \<longrightarrow> select value data = None)"
  by (simp add: plural_category select_other)

lemma en_5: "en (Num (Fin 5)) Undefined = Other"
  by code_simp

theorem no_other_gives_undefined_witness:
  "plural (Num (Fin 5)) (Num (Fin 0)) en [''one'' \<mapsto> ''single''] Undefined = None
   \<and> select (Str ''x'') [''a'' \<mapsto> ''A''] = None"
  using no_other_gives_undefined
      [of "[''one'' \<mapsto> ''single'']" "Num (Fin 5)" en "Num (Fin 0)" Undefined]
    no_other_gives_undefined [of "[''a'' \<mapsto> ''A'']" "Str ''x''"] to_string_5 en_5
  by simp

section \<open>A compiled message: results\<close>

lemma offset_message_exact:
  "offset_message number' lcfunc (Num (Fin 0)) = Some (Inr ''no one'')"
  by (simp add: offset_message_def plural_def hasOwnProperty_def to_property_key_def)

lemma offset_message_category:
  assumes key: "to_string (Num (Fin q)) \<notin> {''0'', ''one'', ''other''}"
  shows "offset_message number' lcfunc (Num (Fin q)) =
           (case lcfunc (Num (Fin (q - 1))) Undefined of
              One \<Rightarrow> Some (Inr ''you and one other'')
            | Other \<Rightarrow>
                Some (case number' (Num (Fin q)) ''count'' (Num (Fin 1)) of
                        Inl e \<Rightarrow> Inl e
                      | Inr n \<Rightarrow> Inr (''you and '' @ to_string n @ '' others''))
            | _ \<Rightarrow>
                Some (case number' (Num (Fin q)) ''count'' (Num (Fin 1)) of
                        Inl e \<Rightarrow> Inl e
                      | Inr n \<Rightarrow> Inr (''you and '' @ to_string n @ '' others'')))"
  using key
  by (cases "lcfunc (Num (Fin (q - 1))) Undefined")
     (simp_all add: offset_message_def plural_def hasOwnProperty_def to_property_key_def
        js_sub_def Let_def del: to_string.simps)

lemma number_minus_1:
  "number' = defaultNumber \<or> number' = strictNumber \<Longrightarrow>
   number' (Num (Fin q)) ''count'' (Num (Fin 1)) = Inr (Num (Fin (q - 1)))"
  by (auto simp: defaultNumber_def strictNumber_def isNaN_def js_sub_def js_or_def)

lemma to_string_0: "to_string (Num (Fin 0)) = ''0''"
  by simp

text \<open>
  C6, as the code has it. For the message with \<^verbatim>\<open>offset:1\<close> and the cases \<^verbatim>\<open>=0\<close>,
  \<^verbatim>\<open>one\<close>, \<^verbatim>\<open>other\<close>, and a plural function that follows the English cardinal rule
  (\<^verbatim>\<open>one\<close> for 1, \<^verbatim>\<open>other\<close> for 0 and 2), with either variant of \<^verbatim>\<open>number\<close>: the count
  0 gives \<^verbatim>\<open>no one\<close> by the exact match; the count 1 is adjusted to 0, whose category is
  \<^verbatim>\<open>other\<close>, and gives \<^verbatim>\<open>you and 0 others\<close>; the count 2 is adjusted to 1 and gives
  \<^verbatim>\<open>you and one other\<close>; the count 3 gives \<^verbatim>\<open>you and 2 others\<close>.
\<close>

theorem offset_message_results:
  assumes "lcfunc (Num (Fin 0)) Undefined = Other"
    and "lcfunc (Num (Fin 1)) Undefined = One"
    and "lcfunc (Num (Fin 2)) Undefined = Other"
    and "number' = defaultNumber \<or> number' = strictNumber"
  shows "offset_message number' lcfunc (Num (Fin 0)) = Some (Inr ''no one'')
       \<and> offset_message number' lcfunc (Num (Fin 1)) = Some (Inr ''you and 0 others'')
       \<and> offset_message number' lcfunc (Num (Fin 2)) = Some (Inr ''you and one other'')
       \<and> offset_message number' lcfunc (Num (Fin 3)) = Some (Inr ''you and 2 others'')"
proof -
  have c1: "offset_message number' lcfunc (Num (Fin 1)) = Some (Inr ''you and 0 others'')"
    using offset_message_category [of 1 number' lcfunc] assms(1) number_minus_1 [OF assms(4), of 1]
    by (simp add: to_string_1 del: to_string.simps) simp
  have c2: "offset_message number' lcfunc (Num (Fin 2)) = Some (Inr ''you and one other'')"
    using offset_message_category [of 2 number' lcfunc] assms(2)
    by (simp add: to_string_2 del: to_string.simps)
  have c3: "offset_message number' lcfunc (Num (Fin 3)) = Some (Inr ''you and 2 others'')"
    using offset_message_category [of 3 number' lcfunc] assms(3) number_minus_1 [OF assms(4), of 3]
    by (simp add: to_string_3 to_string_2 del: to_string.simps)
  from offset_message_exact c1 c2 c3 show ?thesis by blast
qed

lemma en_0: "en (Num (Fin 0)) Undefined = Other"
  by code_simp

lemma en_1: "en (Num (Fin 1)) Undefined = One"
  by code_simp

lemma en_2: "en (Num (Fin 2)) Undefined = Other"
  by code_simp

theorem offset_message_results_witness:
  "offset_message defaultNumber en (Num (Fin 0)) = Some (Inr ''no one'')
   \<and> offset_message defaultNumber en (Num (Fin 1)) = Some (Inr ''you and 0 others'')
   \<and> offset_message defaultNumber en (Num (Fin 2)) = Some (Inr ''you and one other'')
   \<and> offset_message defaultNumber en (Num (Fin 3)) = Some (Inr ''you and 2 others'')"
  using offset_message_results [of en defaultNumber] en_0 en_1 en_2 by simp

text \<open>
  C6 as stated fails at the count 1: the compiled function does not yield
  \<^verbatim>\<open>you and one other\<close> there.
\<close>

theorem offset_message_count_1_counterexample:
  "offset_message defaultNumber en (Num (Fin 1)) \<noteq> Some (Inr ''you and one other'')"
proof -
  have "offset_message defaultNumber en (Num (Fin 1)) = Some (Inr ''you and 0 others'')"
    using offset_message_category [of 1 defaultNumber en] en_0 number_minus_1 [of defaultNumber 1]
    by (simp add: to_string_1 del: to_string.simps) simp
  then show ?thesis by simp
qed

section \<open>The constructor and the rendering: results\<close>

lemma set_insert_key: "set (insert_key k v ps) = insert (k, v) (set ps)"
  by (induction ps) (auto split: option.splits if_splits)

lemma keys_obj_put: "fst ` set (obj_put ps k v) = insert k (fst ` set ps)"
proof (cases "k \<in> set (map fst ps)")
  case True
  then have "fst ` set (obj_put ps k v) = fst ` set ps"
    by (force simp: obj_put_def image_iff split: if_splits)
  with True show ?thesis by auto
next
  case False
  then show ?thesis by (simp add: obj_put_def set_insert_key)
qed

lemma distinct_insert_key:
  "k \<notin> fst ` set ps \<Longrightarrow> distinct (map fst ps) \<Longrightarrow> distinct (map fst (insert_key k v ps))"
proof (induction ps)
  case Nil
  then show ?case by simp
next
  case (Cons p ps)
  obtain k' v' where p: "p = (k', v')" by (cases p)
  have keys: "fst ` set (insert_key k v ps) = insert k (fst ` set ps)"
    by (simp add: set_insert_key)
  from Cons p keys show ?case
    by (auto split: option.splits if_splits)
qed

lemma map_fst_update:
  "map fst (map (\<lambda>(k', v'). if k' = k then (k', v) else (k', v')) ps) = map fst ps"
  by (induction ps) auto

lemma distinct_obj_put:
  "distinct (map fst ps) \<Longrightarrow> distinct (map fst (obj_put ps k v))"
  by (auto simp: obj_put_def map_fst_update distinct_insert_key simp del: map_map)

lemma entries_obj_put:
  "(i, w) \<in> set (obj_put ps k v) \<Longrightarrow> (i = k \<and> w = v) \<or> (i, w) \<in> set ps"
  by (auto simp: obj_put_def set_insert_key split: if_splits)

lemma keys_foldl_put:
  "fst ` set (foldl (\<lambda>obj x. obj_put obj (f x) (g x)) ps xs) = fst ` set ps \<union> f ` set xs"
  by (induction xs arbitrary: ps) (auto simp: keys_obj_put)

lemma distinct_foldl_put:
  "distinct (map fst ps) \<Longrightarrow> distinct (map fst (foldl (\<lambda>obj x. obj_put obj (f x) (g x)) ps xs))"
  by (induction xs arbitrary: ps) (auto simp: distinct_obj_put)

lemma entries_foldl_put:
  "(i, w) \<in> set (foldl (\<lambda>obj x. obj_put obj (f x) (g x)) ps xs) \<Longrightarrow>
   (i, w) \<in> set ps \<or> (\<exists>x\<in>set xs. i = f x \<and> w = g x)"
proof (induction xs arbitrary: ps)
  case Nil
  then show ?case by simp
next
  case (Cons x xs)
  from Cons.IH [of "obj_put ps (f x) (g x)"] Cons.prems
  have "(i, w) \<in> set (obj_put ps (f x) (g x)) \<or> (\<exists>y\<in>set xs. i = f y \<and> w = g y)"
    by simp
  then show ?case
    using entries_obj_put [of i w ps "f x" "g x"] by auto
qed

lemma keys_toString_obj:
  "fst ` set (toString_obj funcname other this)
     = funcname ` set (locales (compiler this)) \<union> set (runtime (compiler this))
       \<union> (if formatters (compiler this) = [] then {} else {''fmt''})"
  by (auto simp: toString_obj_def Let_def keys_obj_put keys_foldl_put)

lemma distinct_toString_obj:
  "distinct (map fst (toString_obj funcname other this))"
  by (simp add: toString_obj_def Let_def distinct_obj_put distinct_foldl_put)

lemma entries_toString_obj:
  assumes "(i, v) \<in> set (toString_obj funcname other this)"
  shows "(\<exists>lc\<in>set (locales (compiler this)). i = funcname lc \<and> v = pluralFuncs this lc)
       \<or> (\<exists>fn\<in>set (runtime (compiler this)). i = fn \<and> v = this_get other this fn)
       \<or> (formatters (compiler this) \<noteq> [] \<and> i = ''fmt'' \<and> v = Ob (formatters (compiler this)))"
proof -
  let ?obj0 = "foldl (\<lambda>obj lc. obj_put obj (funcname lc) (pluralFuncs this lc)) []
                 (locales (compiler this))"
  let ?obj1 = "foldl (\<lambda>obj fn. obj_put obj fn (this_get other this fn)) ?obj0 (runtime (compiler this))"
  have e0: "(i, v) \<in> set ?obj0 \<Longrightarrow>
            \<exists>lc\<in>set (locales (compiler this)). i = funcname lc \<and> v = pluralFuncs this lc"
    using entries_foldl_put [of i v funcname "pluralFuncs this" "[]" "locales (compiler this)"]
    by simp
  have e1: "(i, v) \<in> set ?obj1 \<Longrightarrow>
            (i, v) \<in> set ?obj0 \<or> (\<exists>fn\<in>set (runtime (compiler this)). i = fn \<and> v = this_get other this fn)"
    using entries_foldl_put [of i v "\<lambda>fn. fn" "this_get other this" ?obj0 "runtime (compiler this)"]
    by simp
  show ?thesis
  proof (cases "formatters (compiler this) = []")
    case True
    with assms have "(i, v) \<in> set ?obj1" by (simp add: toString_obj_def)
    with e0 e1 show ?thesis by blast
  next
    case False
    with assms have "(i, v) \<in> set (obj_put ?obj1 ''fmt'' (Ob (formatters (compiler this))))"
      by (simp add: toString_obj_def)
    then have "(i = ''fmt'' \<and> v = Ob (formatters (compiler this))) \<or> (i, v) \<in> set ?obj1"
      by (rule entries_obj_put)
    with e0 e1 False show ?thesis by blast
  qed
qed

lemma join_empty_sep: "join [] s = concat s"
  by (induction "[] :: string" s rule: join.induct) simp_all

lemma stringify_props_entries:
  "stringify_props propname props level = Inr s \<Longrightarrow>
   \<exists>ts. list_all2 (\<lambda>p t. stringify propname (snd p) (level + 1) = Inr t) props ts
      \<and> s = map2 (\<lambda>p t. entry_text propname level (fst p) t) props ts"
proof (induction props arbitrary: s)
  case Nil
  then show ?case by simp
next
  case (Cons p props)
  obtain i v where p: "p = (i, v)" by (cases p)
  from Cons.prems p obtain t s' where
    t: "stringify propname v (level + 1) = Inr t" and
    s': "stringify_props propname props level = Inr s'" and
    s: "s = entry_text propname level i t # s'"
    by (auto split: sum.splits)
  from Cons.IH [OF s'] obtain ts where
    ts: "list_all2 (\<lambda>p t. stringify propname (snd p) (level + 1) = Inr t) props ts"
        "s' = map2 (\<lambda>p t. entry_text propname level (fst p) t) props ts"
    by blast
  have "list_all2 (\<lambda>p t. stringify propname (snd p) (level + 1) = Inr t) (p # props) (t # ts)"
    using p t ts(1) by simp
  moreover have "s = map2 (\<lambda>p t. entry_text propname level (fst p) t) (p # props) (t # ts)"
    using p s ts(2) by simp
  ultimately show ?case by blast
qed








lemma runtime_member_toString_obj:
  assumes fn: "fn \<in> set (runtime (compiler this))"
    and nl: "fn \<notin> funcname ` set (locales (compiler this))"
    and nf: "fn \<noteq> ''fmt''"
  shows "(fn, this_get other this fn) \<in> set (toString_obj funcname other this)"
proof -
  from fn have "fn \<in> fst ` set (toString_obj funcname other this)"
    by (simp add: keys_toString_obj)
  then obtain v where v: "(fn, v) \<in> set (toString_obj funcname other this)"
    by auto
  from entries_toString_obj [OF v] nl nf have "v = this_get other this fn"
    by blast
  with v show ?thesis by simp
qed













lemma sublist_concat_member: "x \<in> set xs \<Longrightarrow> sublist x (concat xs)"
proof -
  assume "x \<in> set xs"
  then obtain ys zs where "xs = ys @ x # zs" by (auto dest: split_list)
  then have "concat xs = concat ys @ x @ concat zs" by simp
  then show ?thesis using sublist_appendI by metis
qed

lemma example_dependency_set:
  "dependency_set example_table example_leaves
     = \<lparr> locales = [''en''], runtime = [''plural'', ''number''],
         formatters = [(''date'', Fn ''function date(v, lc, p) { return v; }'')] \<rparr>"
  by code_simp

lemma sources_differ: "strictNumber_source \<noteq> defaultNumber_source"
  by code_simp

lemma function_texts_differ:
  "function_text strictNumber_source \<noteq> function_text defaultNumber_source"
  by code_simp

lemma stringify_props_texts:
  assumes "stringify_props propname props level = Inr s"
  shows "\<exists>ts. list_all2 (\<lambda>p t. stringify propname (snd p) (level + 1) = Inr t
                          \<and> (\<forall>src. snd p = Fn src \<longrightarrow> t = function_text src)) props ts
            \<and> s = map2 (\<lambda>p t. entry_text propname level (fst p) t) props ts"
proof -
  from stringify_props_entries [OF assms] obtain ts where
    ts: "list_all2 (\<lambda>p t. stringify propname (snd p) (level + 1) = Inr t) props ts"
    and s: "s = map2 (\<lambda>p t. entry_text propname level (fst p) t) props ts"
    by blast
  have "list_all2 (\<lambda>p t. stringify propname (snd p) (level + 1) = Inr t
                          \<and> (\<forall>src. snd p = Fn src \<longrightarrow> t = function_text src)) props ts"
    using ts by (rule list_all2_mono) auto
  with s show ?thesis by blast
qed

lemma declaration_in_text:
  assumes out: "toString funcname propname other this = Inr out"
    and mem: "(i, Fn src) \<in> set (toString_obj funcname other this)"
  shows "sublist (''var '' @ i @ '' = '' @ function_text src @ '';'' @ [CHR 0x0A]) out"
proof -
  let ?obj = "toString_obj funcname other this"
  from out obtain s where s: "stringify_props propname ?obj 0 = Inr s" and o: "out = concat s"
    by (auto simp: toString_def join_empty_sep split: sum.splits)
  from stringify_props_texts [OF s] obtain ts where
    ts: "list_all2 (\<lambda>p t. stringify propname (snd p) (0 + 1) = Inr t
                        \<and> (\<forall>src. snd p = Fn src \<longrightarrow> t = function_text src)) ?obj ts"
    and s': "s = map2 (\<lambda>p t. entry_text propname 0 (fst p) t) ?obj ts"
    by blast
  from mem obtain n where n: "n < length ?obj" "?obj ! n = (i, Fn src)"
    by (auto simp: in_set_conv_nth)
  from ts have len: "length ts = length ?obj" by (simp add: list_all2_lengthD)
  from ts n(1) have "\<forall>src. snd (?obj ! n) = Fn src \<longrightarrow> ts ! n = function_text src"
    by (auto dest: list_all2_nthD)
  with n(2) have t: "ts ! n = function_text src" by simp
  have "s ! n = entry_text propname 0 i (function_text src)"
    using s' n len t by simp
  moreover have "n < length s" using s' n(1) len by simp
  ultimately have "entry_text propname 0 i (function_text src) \<in> set s"
    by (metis nth_mem)
  then have "sublist (entry_text propname 0 i (function_text src)) (concat s)"
    by (rule sublist_concat_member)
  with o show ?thesis by (simp add: entry_text_def)
qed

lemma number_declared:
  assumes "''number'' \<in> set (runtime (compiler this))"
    and "''number'' \<notin> funcname ` set (locales (compiler this))"
  shows "(''number'', Fn (source (number this))) \<in> set (toString_obj funcname other this)"
  using runtime_member_toString_obj [OF assms, of other] by (simp add: this_get_def)

lemma number_variants_differ: "strictNumber \<noteq> defaultNumber"
proof
  assume "strictNumber = defaultNumber"
  then have "strictNumber (Str ''abc'') ''count'' (Num (Fin 0))
             = defaultNumber (Str ''abc'') ''count'' (Num (Fin 0))"
    by simp
  then show False
    using isNaN_abc by (simp add: strictNumber_def defaultNumber_def)
qed

lemma renderings_differ:
  fixes c :: Compiler and p :: "string \<Rightarrow> jsobj"
  assumes rec: "''number'' \<in> set (runtime c)" "''number'' \<notin> funcname ` set (locales c)"
    and s: "strictNumberSign options = Some True" and d: "strictNumberSign options' \<noteq> Some True"
  shows "toString_obj funcname other (Runtime_new options c p)
       \<noteq> toString_obj funcname other (Runtime_new options' c p)"
proof
  let ?S = "Runtime_new options c p" and ?D = "Runtime_new options' c p"
  assume eq: "toString_obj funcname other ?S = toString_obj funcname other ?D"
  have "(''number'', Fn (source (number ?S))) \<in> set (toString_obj funcname other ?S)"
    using rec by (intro number_declared) (simp_all add: Runtime_new_def)
  moreover have "(''number'', Fn (source (number ?D))) \<in> set (toString_obj funcname other ?D)"
    using rec by (intro number_declared) (simp_all add: Runtime_new_def)
  moreover have "distinct (map fst (toString_obj funcname other ?D))"
    by (rule distinct_toString_obj)
  ultimately have "Fn (source (number ?S)) = Fn (source (number ?D))"
    using eq by (metis eq_key_imp_eq_value)
  with s d show False
    using sources_differ
    by (simp add: Runtime_new_def Runtime_strictNumber_def Runtime_defaultNumber_def)
qed




text \<open>
  C8. The constructor binds \<^verbatim>\<open>number\<close> to \<^verbatim>\<open>Runtime.strictNumber\<close> when
  \<^verbatim>\<open>strictNumberSign\<close> is set and to \<^verbatim>\<open>Runtime.defaultNumber\<close> otherwise: the function it
  calls and the source it shows are those of the chosen variant. The binding depends on
  the options only, not on the compiler nor on the plural functions that the runtime is
  built with. It is the binding that the compilation refers to: \<^verbatim>\<open>this["number"]\<close> is the
  field, so when the compilation has recorded the helper \<^verbatim>\<open>number\<close> (and no plural
  function takes its name), the rendering declares \<^verbatim>\<open>number\<close> as the function bound at
  construction, its text is part of what \<^verbatim>\<open>toString\<close> returns, and the renderings of
  one compilation with and without \<^verbatim>\<open>strictNumberSign\<close> differ. The two variants are
  different functions with different texts.
\<close>

theorem number_bound_at_construction:
  fixes c :: Compiler and p :: "string \<Rightarrow> jsobj"
  shows
  "number (Runtime_new options c p)
     = (if strictNumberSign options = Some True then Runtime_strictNumber
        else Runtime_defaultNumber)
   \<and> call (number (Runtime_new options c p))
     = (if strictNumberSign options = Some True then strictNumber else defaultNumber)
   \<and> source (number (Runtime_new options c p))
     = (if strictNumberSign options = Some True then strictNumber_source
        else defaultNumber_source)
   \<and> number (Runtime_new options c p) = number (Runtime_new options c' p')
   \<and> this_get other (Runtime_new options c p) ''number''
     = Fn (source (number (Runtime_new options c p)))
   \<and> (''number'' \<in> set (runtime c) \<and> ''number'' \<notin> funcname ` set (locales c) \<longrightarrow>
         (''number'', Fn (source (number (Runtime_new options c p))))
           \<in> set (toString_obj funcname other (Runtime_new options c p))
       \<and> (\<forall>out. toString funcname propname other (Runtime_new options c p) = Inr out \<longrightarrow>
             sublist (''var number = ''
                        @ function_text (source (number (Runtime_new options c p)))
                        @ '';'' @ [CHR 0x0A]) out)
       \<and> (strictNumberSign options = Some True \<and> strictNumberSign options' \<noteq> Some True \<longrightarrow>
             toString_obj funcname other (Runtime_new options c p)
               \<noteq> toString_obj funcname other (Runtime_new options' c p)))
   \<and> strictNumber \<noteq> defaultNumber
   \<and> strictNumber_source \<noteq> defaultNumber_source
   \<and> function_text strictNumber_source \<noteq> function_text defaultNumber_source"
proof -
  let ?R = "Runtime_new options c p"
  have b1: "number ?R
     = (if strictNumberSign options = Some True then Runtime_strictNumber
        else Runtime_defaultNumber)"
    by (simp add: Runtime_new_def)
  have b2: "call (number ?R)
     = (if strictNumberSign options = Some True then strictNumber else defaultNumber)"
    by (simp add: Runtime_new_def Runtime_strictNumber_def Runtime_defaultNumber_def)
  have b3: "source (number ?R)
     = (if strictNumberSign options = Some True then strictNumber_source
        else defaultNumber_source)"
    by (simp add: Runtime_new_def Runtime_strictNumber_def Runtime_defaultNumber_def)
  have b4: "number ?R = number (Runtime_new options c' p')"
    by (simp add: Runtime_new_def)
  have b5: "this_get other ?R ''number'' = Fn (source (number ?R))"
    by (simp add: this_get_def)
  have b6: "''number'' \<in> set (runtime c) \<and> ''number'' \<notin> funcname ` set (locales c) \<longrightarrow>
         (''number'', Fn (source (number ?R))) \<in> set (toString_obj funcname other ?R)
       \<and> (\<forall>out. toString funcname propname other ?R = Inr out \<longrightarrow>
             sublist (''var number = '' @ function_text (source (number ?R))
                        @ '';'' @ [CHR 0x0A]) out)
       \<and> (strictNumberSign options = Some True \<and> strictNumberSign options' \<noteq> Some True \<longrightarrow>
             toString_obj funcname other ?R
               \<noteq> toString_obj funcname other (Runtime_new options' c p))"
  proof (intro impI, elim conjE)
    assume rec: "''number'' \<in> set (runtime c)" "''number'' \<notin> funcname ` set (locales c)"
    have mem: "(''number'', Fn (source (number ?R))) \<in> set (toString_obj funcname other ?R)"
      using rec by (intro number_declared) (simp_all add: Runtime_new_def)
    have decl: "\<forall>out. toString funcname propname other ?R = Inr out \<longrightarrow>
             sublist (''var number = '' @ function_text (source (number ?R))
                        @ '';'' @ [CHR 0x0A]) out"
      using declaration_in_text [OF _ mem] by simp
    have dif: "strictNumberSign options = Some True \<and> strictNumberSign options' \<noteq> Some True \<longrightarrow>
             toString_obj funcname other ?R
               \<noteq> toString_obj funcname other (Runtime_new options' c p)"
      using renderings_differ [OF rec] by blast
    from mem decl dif show
      "(''number'', Fn (source (number ?R))) \<in> set (toString_obj funcname other ?R)
       \<and> (\<forall>out. toString funcname propname other ?R = Inr out \<longrightarrow>
             sublist (''var number = '' @ function_text (source (number ?R))
                        @ '';'' @ [CHR 0x0A]) out)
       \<and> (strictNumberSign options = Some True \<and> strictNumberSign options' \<noteq> Some True \<longrightarrow>
             toString_obj funcname other ?R
               \<noteq> toString_obj funcname other (Runtime_new options' c p))"
      by (intro conjI)
  qed
  show ?thesis
    by (intro conjI) (fact b1, fact b2, fact b3, fact b4, fact b5, fact b6,
        fact number_variants_differ, fact sources_differ, fact function_texts_differ)
qed

theorem number_bound_at_construction_witness:
  "call (number (Runtime_new strict_options (dependency_set example_table example_leaves)
                   example_pluralFuncs)) = strictNumber
   \<and> call (number (Runtime_new default_options (dependency_set example_table example_leaves)
                   example_pluralFuncs)) = defaultNumber
   \<and> (''number'', Fn strictNumber_source)
       \<in> set (toString_obj id no_other
                (Runtime_new strict_options (dependency_set example_table example_leaves)
                   example_pluralFuncs))
   \<and> (''number'', Fn defaultNumber_source)
       \<in> set (toString_obj id no_other
                (Runtime_new default_options (dependency_set example_table example_leaves)
                   example_pluralFuncs))
   \<and> toString_obj id no_other
        (Runtime_new strict_options (dependency_set example_table example_leaves)
           example_pluralFuncs)
     \<noteq> toString_obj id no_other
        (Runtime_new default_options (dependency_set example_table example_leaves)
           example_pluralFuncs)
   \<and> toString id id no_other
        (Runtime_new strict_options (dependency_set example_table example_leaves)
           example_pluralFuncs)
     = Inr (source_text
       [''var en = function (n, ord) {'',
        ''  return n == 1 ? '' @ [CHR 0x27] @ ''one'' @ [CHR 0x27] @ '' : '' @ [CHR 0x27] @ ''other'' @ [CHR 0x27] @ '';'',
        ''};'',
        ''var plural = function(value, offset, lcfunc, data, isOrdinal) {'',
        ''  if ({}.hasOwnProperty.call(data, value)) return data[value];'',
        ''  if (offset) value -= offset;'',
        ''  var key = lcfunc(value, isOrdinal);'',
        ''  return key in data ? data[key] : data.other;'',
        ''};'',
        ''var number = function(value, name, offset) {'',
        ''  if (isNaN(value))'',
        ''    throw new Error('',
        ''      '' @ [CHR 0x27] @ ''Argument `'' @ [CHR 0x27] @ '' +'',
        ''        name +'',
        ''        '' @ [CHR 0x27] @ ''` has non-numerical value '' @ [CHR 0x27] @ '' +'',
        ''        JSON.stringify(value) +'',
        ''        '' @ [CHR 0x27] @ ''.'' @ [CHR 0x27],
        ''    );'',
        ''  return value - (offset || 0);'',
        ''};'',
        ''var fmt = {'',
        ''  date: function (v, lc, p) { return v; }'',
        ''};'',
        []])"
proof -
  have rec: "''number'' \<in> set (runtime (dependency_set example_table example_leaves))"
    "''number'' \<notin> id ` set (locales (dependency_set example_table example_leaves))"
    by (simp_all add: example_dependency_set)
  have s: "strictNumberSign strict_options = Some True"
    and d: "strictNumberSign default_options \<noteq> Some True"
    by (simp_all add: strict_options_def default_options_def)
  note S = number_bound_at_construction
    [where options = strict_options and c = "dependency_set example_table example_leaves"
       and p = example_pluralFuncs and other = no_other and funcname = id
       and propname = id and options' = default_options
       and c' = "dependency_set example_table example_leaves" and p' = example_pluralFuncs]
  note D = number_bound_at_construction
    [where options = default_options and c = "dependency_set example_table example_leaves"
       and p = example_pluralFuncs and other = no_other and funcname = id
       and propname = id and options' = default_options
       and c' = "dependency_set example_table example_leaves" and p' = example_pluralFuncs]
  have rendered: "toString id id no_other
        (Runtime_new strict_options (dependency_set example_table example_leaves)
           example_pluralFuncs)
     = Inr (source_text
       [''var en = function (n, ord) {'',
        ''  return n == 1 ? '' @ [CHR 0x27] @ ''one'' @ [CHR 0x27] @ '' : '' @ [CHR 0x27] @ ''other'' @ [CHR 0x27] @ '';'',
        ''};'',
        ''var plural = function(value, offset, lcfunc, data, isOrdinal) {'',
        ''  if ({}.hasOwnProperty.call(data, value)) return data[value];'',
        ''  if (offset) value -= offset;'',
        ''  var key = lcfunc(value, isOrdinal);'',
        ''  return key in data ? data[key] : data.other;'',
        ''};'',
        ''var number = function(value, name, offset) {'',
        ''  if (isNaN(value))'',
        ''    throw new Error('',
        ''      '' @ [CHR 0x27] @ ''Argument `'' @ [CHR 0x27] @ '' +'',
        ''        name +'',
        ''        '' @ [CHR 0x27] @ ''` has non-numerical value '' @ [CHR 0x27] @ '' +'',
        ''        JSON.stringify(value) +'',
        ''        '' @ [CHR 0x27] @ ''.'' @ [CHR 0x27],
        ''    );'',
        ''  return value - (offset || 0);'',
        ''};'',
        ''var fmt = {'',
        ''  date: function (v, lc, p) { return v; }'',
        ''};'',
        []])"
    by code_simp
  note S2 = S [THEN conjunct2, THEN conjunct1]
  note S3 = S [THEN conjunct2, THEN conjunct2, THEN conjunct1]
  note S6 = S [THEN conjunct2, THEN conjunct2, THEN conjunct2, THEN conjunct2,
                THEN conjunct2, THEN conjunct1]
  note D2 = D [THEN conjunct2, THEN conjunct1]
  note D3 = D [THEN conjunct2, THEN conjunct2, THEN conjunct1]
  note D6 = D [THEN conjunct2, THEN conjunct2, THEN conjunct2, THEN conjunct2,
                THEN conjunct2, THEN conjunct1]
  from S2 s have w1: "call (number (Runtime_new strict_options
      (dependency_set example_table example_leaves) example_pluralFuncs)) = strictNumber"
    by simp
  from D2 d have w2: "call (number (Runtime_new default_options
      (dependency_set example_table example_leaves) example_pluralFuncs)) = defaultNumber"
    by simp
  from S6 rec have "(''number'', Fn (source (number (Runtime_new strict_options
      (dependency_set example_table example_leaves) example_pluralFuncs))))
       \<in> set (toString_obj id no_other (Runtime_new strict_options
                (dependency_set example_table example_leaves) example_pluralFuncs))"
    by blast
  with S3 s have w3: "(''number'', Fn strictNumber_source)
       \<in> set (toString_obj id no_other (Runtime_new strict_options
                (dependency_set example_table example_leaves) example_pluralFuncs))"
    by simp
  from D6 rec have "(''number'', Fn (source (number (Runtime_new default_options
      (dependency_set example_table example_leaves) example_pluralFuncs))))
       \<in> set (toString_obj id no_other (Runtime_new default_options
                (dependency_set example_table example_leaves) example_pluralFuncs))"
    by blast
  with D3 d have w4: "(''number'', Fn defaultNumber_source)
       \<in> set (toString_obj id no_other (Runtime_new default_options
                (dependency_set example_table example_leaves) example_pluralFuncs))"
    by simp
  from S6 rec s d have w5: "toString_obj id no_other
        (Runtime_new strict_options (dependency_set example_table example_leaves)
           example_pluralFuncs)
     \<noteq> toString_obj id no_other
        (Runtime_new default_options (dependency_set example_table example_leaves)
           example_pluralFuncs)"
    by blast
  show ?thesis
    by (intro conjI) (fact w1, fact w2, fact w3, fact w4, fact w5, fact rendered)
qed

end
